theory Spec2Isabelle
  imports Main "HOL-Library.Word"
begin

section \<open>Values built by \<^verbatim>\<open>json.load\<close>\<close>

text \<open>
  \<^verbatim>\<open>json.load\<close> turns a JSON document into Python objects: \<^verbatim>\<open>None\<close>, \<^verbatim>\<open>bool\<close>,
  \<^verbatim>\<open>int\<close> (unbounded), \<^verbatim>\<open>float\<close> (an IEEE double, kept here as its 64 bits),
  \<^verbatim>\<open>str\<close>, \<^verbatim>\<open>list\<close> and \<^verbatim>\<open>dict\<close>. A \<^verbatim>\<open>dict\<close> keeps its keys in insertion order,
  so it is an association list; the parser never yields two entries with one key.
  Every object of the parsed document is fresh, so the document is a tree and mutating
  a nested \<^verbatim>\<open>dict\<close> in place is replacing the value bound in its parent.
\<close>

datatype json =
    JNull
  | JBool bool
  | JInt int
  | JFloat "64 word"
  | JStr string
  | JArr "json list"
  | JObj "(string \<times> json) list"

type_synonym py_dict = "(string \<times> json) list"

datatype py_error = TypeError | KeyError string

definition then_do :: "py_error + 'a \<Rightarrow> ('a \<Rightarrow> py_error + 'b) \<Rightarrow> py_error + 'b" where
  "then_do r f = (case r of Inl e \<Rightarrow> Inl e | Inr x \<Rightarrow> f x)"

section \<open>The operations of \<^verbatim>\<open>dict\<close>, \<^verbatim>\<open>list\<close> and \<^verbatim>\<open>str\<close> that the scripts use\<close>

definition dict_contains :: "string \<Rightarrow> py_dict \<Rightarrow> bool" where
  "dict_contains k d = (case map_of d k of None \<Rightarrow> False | Some v \<Rightarrow> True)"

text \<open>\<^verbatim>\<open>d[k] = v\<close>: an existing key keeps its position, a new key goes to the end.\<close>

primrec dict_setitem :: "string \<Rightarrow> json \<Rightarrow> py_dict \<Rightarrow> py_dict" where
  "dict_setitem k v [] = [(k, v)]"
| "dict_setitem k v (p # ps) =
     (if fst p = k then (k, v) # ps else p # dict_setitem k v ps)"

text \<open>\<^verbatim>\<open>del d[k]\<close> for a key that is present: the entry with that key goes, the others
  stay in their order.\<close>

definition dict_delitem :: "string \<Rightarrow> py_dict \<Rightarrow> py_dict" where
  "dict_delitem k d = filter (\<lambda>p. fst p \<noteq> k) d"

text \<open>\<^verbatim>\<open>k in s\<close> for two strings is the substring test.\<close>

fun str_contains :: "string \<Rightarrow> string \<Rightarrow> bool" where
  "str_contains k [] = (k = [])"
| "str_contains k (c # cs) = (take (length k) (c # cs) = k \<or> str_contains k cs)"

text \<open>
  \<^verbatim>\<open>k in x\<close> with a string \<open>k\<close>: key membership in a \<^verbatim>\<open>dict\<close>, element membership
  in a \<^verbatim>\<open>list\<close> (only a string element equals \<open>k\<close>), substring in a \<^verbatim>\<open>str\<close>, and
  \<^verbatim>\<open>TypeError\<close> (not iterable) for numbers, booleans and \<^verbatim>\<open>None\<close>.
\<close>

fun py_contains :: "string \<Rightarrow> json \<Rightarrow> py_error + bool" where
  "py_contains k (JObj d) = Inr (dict_contains k d)"
| "py_contains k (JArr xs) = Inr (JStr k \<in> set xs)"
| "py_contains k (JStr s) = Inr (str_contains k s)"
| "py_contains k _ = Inl TypeError"

text \<open>\<^verbatim>\<open>x[k]\<close> with a string \<open>k\<close>: only a \<^verbatim>\<open>dict\<close> accepts a string subscript.\<close>

fun py_getitem :: "string \<Rightarrow> json \<Rightarrow> py_error + json" where
  "py_getitem k (JObj d) = (case map_of d k of None \<Rightarrow> Inl (KeyError k) | Some v \<Rightarrow> Inr v)"
| "py_getitem k _ = Inl TypeError"

text \<open>\<^verbatim>\<open>x[k] = v\<close> with a string \<open>k\<close>.\<close>

fun py_setitem :: "string \<Rightarrow> json \<Rightarrow> json \<Rightarrow> py_error + json" where
  "py_setitem k v (JObj d) = Inr (JObj (dict_setitem k v d))"
| "py_setitem k v _ = Inl TypeError"

text \<open>\<^verbatim>\<open>del x[k]\<close> with a string \<open>k\<close>.\<close>

fun py_delitem :: "string \<Rightarrow> json \<Rightarrow> py_error + json" where
  "py_delitem k (JObj d) =
     (if dict_contains k d then Inr (JObj (dict_delitem k d)) else Inl (KeyError k))"
| "py_delitem k _ = Inl TypeError"

text \<open>
  \<^verbatim>\<open>data[k1][k2] = v\<close> and \<^verbatim>\<open>del data[k1][k2]\<close>: the object \<^verbatim>\<open>data[k1]\<close> is fetched
  and mutated in place, so afterwards \<open>k1\<close> is bound, at its old position, to the
  mutated object.
\<close>

definition setitem_in :: "string \<Rightarrow> string \<Rightarrow> json \<Rightarrow> json \<Rightarrow> py_error + json" where
  "setitem_in k1 k2 v data =
     then_do (py_getitem k1 data) (\<lambda>inner.
     then_do (py_setitem k2 v inner) (\<lambda>inner'.
     py_setitem k1 inner' data))"

definition delitem_in :: "string \<Rightarrow> string \<Rightarrow> json \<Rightarrow> py_error + json" where
  "delitem_in k1 k2 data =
     then_do (py_getitem k1 data) (\<lambda>inner.
     then_do (py_delitem k2 inner) (\<lambda>inner'.
     py_setitem k1 inner' data))"

section \<open>The process: what is read, what is written, how it ends\<close>

text \<open>
  \<^verbatim>\<open>json.load(sys.stdin)\<close> either raises \<^verbatim>\<open>JSONDecodeError\<close> with a message or returns
  the parsed value. Standard output receives the calls \<^verbatim>\<open>json.dump(obj, sys.stdout,
  indent=n)\<close>; standard error receives the lines of \<^verbatim>\<open>print(..., file=sys.stderr)\<close>
  and, when an exception is not caught, the interpreter's traceback, after which the
  interpreter exits with status 1.
\<close>

datatype load_result = JSONDecodeError string | Loaded json

datatype stdout_event = Dump json nat

datatype stderr_event = Print string | Traceback py_error

record process =
  stdout :: "stdout_event list"
  stderr :: "stderr_event list"
  exit_code :: nat

definition uncaught :: "py_error \<Rightarrow> process" where
  "uncaught e = \<lparr>stdout = [], stderr = [Traceback e], exit_code = 1\<rparr>"

definition decode_failed :: "string \<Rightarrow> process" where
  "decode_failed msg =
     \<lparr>stdout = [], stderr = [Print (''Error decoding JSON: '' @ msg)], exit_code = 1\<rparr>"

section \<open>\<^verbatim>\<open>modify_package.py\<close>\<close>

text \<open>Lines 12 and 13: \<^verbatim>\<open>if 'scripts' not in data: data['scripts'] = {}\<close>.\<close>

definition ensure_scripts :: "json \<Rightarrow> py_error + json" where
  "ensure_scripts data =
     then_do (py_contains ''scripts'' data) (\<lambda>present.
     if \<not> present then py_setitem ''scripts'' (JObj []) data else Inr data)"

text \<open>Lines 17 and 18:
  \<^verbatim>\<open>if 'lint:format' in data['scripts']: del data['scripts']['lint:format']\<close>.\<close>

definition drop_lint_format :: "json \<Rightarrow> py_error + json" where
  "drop_lint_format data =
     then_do (py_getitem ''scripts'' data) (\<lambda>scripts.
     then_do (py_contains ''lint:format'' scripts) (\<lambda>present.
     if present then delitem_in ''scripts'' ''lint:format'' data else Inr data))"

text \<open>Lines 12 to 22, statement by statement; the first exception ends the run.\<close>

definition modify_package_transform :: "json \<Rightarrow> py_error + json" where
  "modify_package_transform data =
     then_do (ensure_scripts data) (\<lambda>d1.
     then_do (setitem_in ''scripts'' ''build'' (JStr ''bun build.ts'') d1) (\<lambda>d2.
     then_do (drop_lint_format d2) (\<lambda>d3.
     then_do (setitem_in ''scripts'' ''lint'' (JStr ''bun biome lint .'') d3) (\<lambda>d4.
     then_do (setitem_in ''scripts'' ''lint:fix'' (JStr ''bun biome lint --apply .'') d4) (\<lambda>d5.
     then_do (setitem_in ''scripts'' ''format'' (JStr ''bun biome format .'') d5) (\<lambda>d6.
     setitem_in ''scripts'' ''format:fix'' (JStr ''bun biome format --write .'') d6))))))"

text \<open>The whole script: lines 5 to 9, the transform, and line 25.\<close>

definition modify_package :: "load_result \<Rightarrow> process" where
  "modify_package r =
     (case r of
        JSONDecodeError msg \<Rightarrow> decode_failed msg
      | Loaded data \<Rightarrow>
          (case modify_package_transform data of
             Inl e \<Rightarrow> uncaught e
           | Inr data' \<Rightarrow> \<lparr>stdout = [Dump data' 2], stderr = [], exit_code = 0\<rparr>))"

section \<open>\<^verbatim>\<open>remove_prettier.py\<close>\<close>

text \<open>Line 10: \<^verbatim>\<open>'devDependencies' in data and 'prettier' in data['devDependencies']\<close>;
  \<^verbatim>\<open>and\<close> evaluates its right operand only when the left one is true.\<close>

definition has_prettier :: "json \<Rightarrow> py_error + bool" where
  "has_prettier data =
     then_do (py_contains ''devDependencies'' data) (\<lambda>present.
     if present
     then then_do (py_getitem ''devDependencies'' data) (py_contains ''prettier'')
     else Inr False)"

text \<open>Lines 10 to 14: the value left in \<^verbatim>\<open>data\<close> and the line printed to standard
  error. The deletion comes before the \<^verbatim>\<open>print\<close>, so a run that raises prints no line.\<close>

definition remove_prettier_transform :: "json \<Rightarrow> py_error + json \<times> string" where
  "remove_prettier_transform data =
     then_do (has_prettier data) (\<lambda>found.
     if found
     then then_do (delitem_in ''devDependencies'' ''prettier'' data) (\<lambda>data'.
            Inr (data', ''Removed prettier from devDependencies.''))
     else Inr (data, ''prettier not found in devDependencies or devDependencies section missing.''))"

text \<open>The whole script: lines 4 to 8, the transform, and line 16.\<close>

definition remove_prettier :: "load_result \<Rightarrow> process" where
  "remove_prettier r =
     (case r of
        JSONDecodeError msg \<Rightarrow> decode_failed msg
      | Loaded data \<Rightarrow>
          (case remove_prettier_transform data of
             Inl e \<Rightarrow> uncaught e
           | Inr (data', line) \<Rightarrow>
               \<lparr>stdout = [Dump data' 2], stderr = [Print line], exit_code = 0\<rparr>))"

section \<open>Vocabulary of the properties\<close>

text \<open>Whether a value is a \<^verbatim>\<open>dict\<close>, and whether a field of a manifest is missing or
  bound to a \<^verbatim>\<open>dict\<close>.\<close>

fun is_object :: "json \<Rightarrow> bool" where
  "is_object (JObj d) = True"
| "is_object _ = False"

definition absent_or_object :: "string \<Rightarrow> py_dict \<Rightarrow> bool" where
  "absent_or_object k d = (case map_of d k of None \<Rightarrow> True | Some v \<Rightarrow> is_object v)"

text \<open>The fields of a manifest other than \<open>k\<close>, in their order.\<close>

definition other_fields :: "string \<Rightarrow> py_dict \<Rightarrow> py_dict" where
  "other_fields k d = filter (\<lambda>p. fst p \<noteq> k) d"

text \<open>The keys that lines 16 to 22 of \<^verbatim>\<open>modify_package.py\<close> name.\<close>

definition edited_keys :: "string set" where
  "edited_keys = {''build'', ''lint'', ''lint:fix'', ''format'', ''format:fix'', ''lint:format''}"

text \<open>The \<^verbatim>\<open>scripts\<close> that line 16 finds: those of the input, or the empty \<^verbatim>\<open>dict\<close>
  of line 13.\<close>

definition scripts_of :: "py_dict \<Rightarrow> py_dict" where
  "scripts_of d = (case map_of d ''scripts'' of Some (JObj sc) \<Rightarrow> sc | _ \<Rightarrow> [])"

text \<open>Lines 16 to 22 seen from the \<^verbatim>\<open>scripts\<close> object alone: the six statements in
  their order (\<open>transform_object\<close> below proves that the script does exactly this).\<close>

definition edit_scripts :: "py_dict \<Rightarrow> py_dict" where
  "edit_scripts sc =
     dict_setitem ''format:fix'' (JStr ''bun biome format --write .'')
    (dict_setitem ''format'' (JStr ''bun biome format .'')
    (dict_setitem ''lint:fix'' (JStr ''bun biome lint --apply .'')
    (dict_setitem ''lint'' (JStr ''bun biome lint .'')
    (dict_delitem ''lint:format''
    (dict_setitem ''build'' (JStr ''bun build.ts'') sc)))))"

section \<open>Facts about the \<^verbatim>\<open>dict\<close> operations\<close>

lemma dict_contains_iff: "dict_contains k d \<longleftrightarrow> map_of d k \<noteq> None"
  by (simp add: dict_contains_def split: option.splits)

lemma map_of_dict_setitem: "map_of (dict_setitem k v d) = (map_of d)(k \<mapsto> v)"
  by (induction d) (auto simp: fun_eq_iff)

lemma map_of_dict_delitem: "map_of (dict_delitem k d) = (map_of d)(k := None)"
  unfolding dict_delitem_def by (induction d) (auto simp: fun_eq_iff)

lemma dict_setitem_absent: "map_of d k = None \<Longrightarrow> dict_setitem k v d = d @ [(k, v)]"
  by (induction d) (auto split: if_splits)

lemma dict_setitem_same: "map_of d k = Some v \<Longrightarrow> dict_setitem k v d = d"
  by (induction d) (auto split: if_splits)

lemma dict_setitem_twice: "dict_setitem k v (dict_setitem k w d) = dict_setitem k v d"
  by (induction d) auto

lemma dict_delitem_absent: "map_of d k = None \<Longrightarrow> dict_delitem k d = d"
  unfolding dict_delitem_def by (induction d) (auto split: if_splits)

lemma keys_dict_setitem:
  "map_of d k = Some w \<Longrightarrow> map fst (dict_setitem k v d) = map fst d"
  by (induction d) (auto split: if_splits)

lemma distinct_dict_setitem:
  "distinct (map fst d) \<Longrightarrow> distinct (map fst (dict_setitem k v d))"
proof (induction d)
  case Nil
  then show ?case by simp
next
  case (Cons p ps)
  have "fst ` set (dict_setitem k v ps) = insert k (fst ` set ps)"
    using map_of_dict_setitem [of k v ps] by (metis dom_map_of_conv_image_fst dom_fun_upd option.distinct(1))
  with Cons show ?case by auto
qed

lemma distinct_dict_delitem:
  "distinct (map fst d) \<Longrightarrow> distinct (map fst (dict_delitem k d))"
  unfolding dict_delitem_def by (simp add: distinct_map_filter)

section \<open>What the two transforms compute\<close>

lemma setitem_in_object:
  "map_of d k1 = Some (JObj inner) \<Longrightarrow>
   setitem_in k1 k2 v (JObj d) = Inr (JObj (dict_setitem k1 (JObj (dict_setitem k2 v inner)) d))"
  by (simp add: setitem_in_def then_do_def)

lemma delitem_in_object:
  "map_of d k1 = Some (JObj inner) \<Longrightarrow> dict_contains k2 inner \<Longrightarrow>
   delitem_in k1 k2 (JObj d) = Inr (JObj (dict_setitem k1 (JObj (dict_delitem k2 inner)) d))"
  by (simp add: delitem_in_def then_do_def)

lemma setitem_in_not_object:
  "map_of d k1 = Some x \<Longrightarrow> \<not> is_object x \<Longrightarrow> setitem_in k1 k2 v (JObj d) = Inl TypeError"
  by (cases x) (simp_all add: setitem_in_def then_do_def)

lemma drop_lint_format_object:
  assumes "map_of d ''scripts'' = Some (JObj sc)"
  shows "drop_lint_format (JObj d) =
    Inr (JObj (dict_setitem ''scripts'' (JObj (dict_delitem ''lint:format'' sc)) d))"
proof (cases "dict_contains ''lint:format'' sc")
  case True
  with assms show ?thesis
    by (simp add: drop_lint_format_def then_do_def delitem_in_object)
next
  case False
  then have "dict_delitem ''lint:format'' sc = sc"
    by (simp add: dict_contains_iff dict_delitem_absent)
  with False assms show ?thesis
    by (simp add: drop_lint_format_def then_do_def dict_setitem_same)
qed

lemma ensure_scripts_object:
  "absent_or_object ''scripts'' d \<Longrightarrow>
   ensure_scripts (JObj d) = Inr (JObj (dict_setitem ''scripts'' (JObj (scripts_of d)) d))"
  by (cases "map_of d ''scripts''")
    (auto simp: ensure_scripts_def then_do_def dict_contains_def absent_or_object_def
      scripts_of_def dict_setitem_same elim: is_object.elims)

lemma transform_object:
  assumes "absent_or_object ''scripts'' d"
  shows "modify_package_transform (JObj d) =
    Inr (JObj (dict_setitem ''scripts'' (JObj (edit_scripts (scripts_of d))) d))"
  unfolding modify_package_transform_def edit_scripts_def
  by (simp add: ensure_scripts_object [OF assms] then_do_def setitem_in_object
      drop_lint_format_object map_of_dict_setitem dict_setitem_twice)

lemma transform_not_object:
  assumes "\<not> absent_or_object ''scripts'' d"
  shows "modify_package_transform (JObj d) = Inl TypeError"
proof -
  from assms obtain x where x: "map_of d ''scripts'' = Some x" "\<not> is_object x"
    by (auto simp: absent_or_object_def split: option.splits)
  then have "ensure_scripts (JObj d) = Inr (JObj d)"
    by (simp add: ensure_scripts_def then_do_def dict_contains_def)
  with x show ?thesis
    by (simp add: modify_package_transform_def then_do_def setitem_in_not_object)
qed

lemma transform_not_dict:
  "\<not> is_object data \<Longrightarrow> modify_package_transform data = Inl TypeError"
  by (cases data)
    (simp_all add: modify_package_transform_def ensure_scripts_def then_do_def setitem_in_def)

lemma other_fields_dict_setitem: "other_fields k (dict_setitem k v d) = other_fields k d"
  unfolding other_fields_def by (induction d) auto

lemma unedited_dict_setitem:
  "k \<in> S \<Longrightarrow> filter (\<lambda>p. fst p \<notin> S) (dict_setitem k v d) = filter (\<lambda>p. fst p \<notin> S) d"
  by (induction d) auto

lemma unedited_dict_delitem:
  "k \<in> S \<Longrightarrow> filter (\<lambda>p. fst p \<notin> S) (dict_delitem k d) = filter (\<lambda>p. fst p \<notin> S) d"
  unfolding dict_delitem_def by (induction d) auto

lemma map_of_edit_scripts:
  "map_of (edit_scripts sc) =
     (map_of sc)(''build'' \<mapsto> JStr ''bun build.ts'', ''lint:format'' := None,
        ''lint'' \<mapsto> JStr ''bun biome lint .'',
        ''lint:fix'' \<mapsto> JStr ''bun biome lint --apply .'',
        ''format'' \<mapsto> JStr ''bun biome format .'',
        ''format:fix'' \<mapsto> JStr ''bun biome format --write .'')"
  by (simp add: edit_scripts_def map_of_dict_setitem map_of_dict_delitem)

lemma unedited_edit_scripts:
  "filter (\<lambda>p. fst p \<notin> edited_keys) (edit_scripts sc) = filter (\<lambda>p. fst p \<notin> edited_keys) sc"
proof -
  have in_keys: "''build'' \<in> edited_keys" "''lint'' \<in> edited_keys" "''lint:fix'' \<in> edited_keys"
    "''format'' \<in> edited_keys" "''format:fix'' \<in> edited_keys" "''lint:format'' \<in> edited_keys"
    by (simp_all add: edited_keys_def)
  show ?thesis
    unfolding edit_scripts_def
    by (simp only: unedited_dict_setitem [OF in_keys(1)] unedited_dict_setitem [OF in_keys(2)]
        unedited_dict_setitem [OF in_keys(3)] unedited_dict_setitem [OF in_keys(4)]
        unedited_dict_setitem [OF in_keys(5)] unedited_dict_delitem [OF in_keys(6)])
qed

lemma edit_scripts_twice: "edit_scripts (edit_scripts sc) = edit_scripts sc"
proof -
  have "edit_scripts (edit_scripts sc) =
     dict_setitem ''format:fix'' (JStr ''bun biome format --write .'')
    (dict_setitem ''format'' (JStr ''bun biome format .'')
    (dict_setitem ''lint:fix'' (JStr ''bun biome lint --apply .'')
    (dict_setitem ''lint'' (JStr ''bun biome lint .'')
    (dict_delitem ''lint:format''
    (dict_setitem ''build'' (JStr ''bun build.ts'') (edit_scripts sc))))))"
    by (subst edit_scripts_def) (rule refl)
  also have "dict_setitem ''build'' (JStr ''bun build.ts'') (edit_scripts sc) = edit_scripts sc"
    by (rule dict_setitem_same) (simp add: map_of_edit_scripts)
  also have "dict_delitem ''lint:format'' (edit_scripts sc) = edit_scripts sc"
    by (rule dict_delitem_absent) (simp add: map_of_edit_scripts)
  also have "dict_setitem ''lint'' (JStr ''bun biome lint .'') (edit_scripts sc) = edit_scripts sc"
    by (rule dict_setitem_same) (simp add: map_of_edit_scripts)
  also have "dict_setitem ''lint:fix'' (JStr ''bun biome lint --apply .'') (edit_scripts sc) = edit_scripts sc"
    by (rule dict_setitem_same) (simp add: map_of_edit_scripts)
  also have "dict_setitem ''format'' (JStr ''bun biome format .'') (edit_scripts sc) = edit_scripts sc"
    by (rule dict_setitem_same) (simp add: map_of_edit_scripts)
  also have "dict_setitem ''format:fix'' (JStr ''bun biome format --write .'') (edit_scripts sc) = edit_scripts sc"
    by (rule dict_setitem_same) (simp add: map_of_edit_scripts)
  finally show ?thesis .
qed

lemma remover_unfolded:
  "remove_prettier_transform (JObj d) =
     (case map_of d ''devDependencies'' of
        None \<Rightarrow> Inr (JObj d, ''prettier not found in devDependencies or devDependencies section missing.'')
      | Some v \<Rightarrow>
          (case py_contains ''prettier'' v of
             Inl e \<Rightarrow> Inl e
           | Inr found \<Rightarrow>
               if found
               then (case py_delitem ''prettier'' v of
                       Inl e \<Rightarrow> Inl e
                     | Inr v' \<Rightarrow> Inr (JObj (dict_setitem ''devDependencies'' v' d),
                                     ''Removed prettier from devDependencies.''))
               else Inr (JObj d, ''prettier not found in devDependencies or devDependencies section missing.'')))"
  by (simp add: remove_prettier_transform_def has_prettier_def delitem_in_def then_do_def
      dict_contains_def split: option.splits sum.splits)

lemma other_fields_dict_delitem: "other_fields k (dict_delitem k d) = other_fields k d"
  by (simp add: other_fields_def dict_delitem_def)

lemma scripts_of_dict_setitem: "scripts_of (dict_setitem ''scripts'' (JObj sc) d) = sc"
  by (simp add: scripts_of_def map_of_dict_setitem)

lemma absent_or_object_dict_setitem: "absent_or_object k (dict_setitem k (JObj sc) d)"
  by (simp add: absent_or_object_def map_of_dict_setitem)

lemma transform_fixpoint:
  assumes "modify_package_transform (JObj kvs) = Inr out"
  shows "modify_package_transform out = Inr out"
proof -
  have typed: "absent_or_object ''scripts'' kvs"
  proof (rule ccontr)
    assume "\<not> absent_or_object ''scripts'' kvs"
    with assms show False by (simp add: transform_not_object)
  qed
  let ?sc = "edit_scripts (scripts_of kvs)"
  let ?kvs = "dict_setitem ''scripts'' (JObj ?sc) kvs"
  from assms have out: "out = JObj ?kvs"
    by (simp add: transform_object [OF typed])
  have "modify_package_transform (JObj ?kvs) =
      Inr (JObj (dict_setitem ''scripts'' (JObj (edit_scripts (scripts_of ?kvs))) ?kvs))"
    by (rule transform_object) (rule absent_or_object_dict_setitem)
  also have "edit_scripts (scripts_of ?kvs) = ?sc"
    by (simp only: scripts_of_dict_setitem edit_scripts_twice)
  also have "dict_setitem ''scripts'' (JObj ?sc) ?kvs = ?kvs"
    by (rule dict_setitem_twice)
  finally show ?thesis by (simp only: out)
qed

lemma modify_package_exit:
  "exit_code (modify_package (Loaded data)) = 0 \<longleftrightarrow>
     (\<exists>out. modify_package_transform data = Inr out)"
  by (auto simp: modify_package_def uncaught_def split: sum.splits)

lemma remover_found:
  "map_of d ''devDependencies'' = Some (JObj deps) \<Longrightarrow> dict_contains ''prettier'' deps \<Longrightarrow>
   remove_prettier_transform (JObj d) =
     Inr (JObj (dict_setitem ''devDependencies'' (JObj (dict_delitem ''prettier'' deps)) d),
          ''Removed prettier from devDependencies.'')"
  by (simp add: remover_unfolded)

lemma remover_object_missing:
  "map_of d ''devDependencies'' = Some (JObj deps) \<Longrightarrow> \<not> dict_contains ''prettier'' deps \<Longrightarrow>
   remove_prettier_transform (JObj d) =
     Inr (JObj d, ''prettier not found in devDependencies or devDependencies section missing.'')"
  by (simp add: remover_unfolded)

lemma remover_absent:
  "map_of d ''devDependencies'' = None \<Longrightarrow>
   remove_prettier_transform (JObj d) =
     Inr (JObj d, ''prettier not found in devDependencies or devDependencies section missing.'')"
  by (simp add: remover_unfolded)

lemma remover_not_object:
  assumes "map_of d ''devDependencies'' = Some v" and "\<not> is_object v"
  shows "remove_prettier_transform (JObj d) =
     (if py_contains ''prettier'' v = Inr False
      then Inr (JObj d, ''prettier not found in devDependencies or devDependencies section missing.'')
      else Inl TypeError)"
  using assms by (cases v) (simp_all add: remover_unfolded)

lemma remover_otherwise:
  assumes "\<not> (\<exists>deps. map_of d ''devDependencies'' = Some (JObj deps) \<and> dict_contains ''prettier'' deps)"
  shows "remove_prettier_transform (JObj d) =
           Inr (JObj d, ''prettier not found in devDependencies or devDependencies section missing.'')
       \<or> remove_prettier_transform (JObj d) = Inl TypeError"
proof (cases "map_of d ''devDependencies''")
  case None
  then show ?thesis by (simp add: remover_absent)
next
  case (Some v)
  show ?thesis
  proof (cases "is_object v")
    case True
    then obtain deps where "v = JObj deps" by (cases v) simp_all
    with Some assms show ?thesis by (simp add: remover_object_missing)
  next
    case False
    with Some show ?thesis by (simp add: remover_not_object)
  qed
qed

lemma remover_typed:
  assumes "absent_or_object ''devDependencies'' d"
  shows "\<exists>d' line. remove_prettier_transform (JObj d) = Inr (JObj d', line)
           \<and> other_fields ''devDependencies'' d' = other_fields ''devDependencies'' d"
proof (cases "map_of d ''devDependencies''")
  case None
  then show ?thesis by (simp add: remover_absent)
next
  case (Some v)
  with assms obtain deps where v: "v = JObj deps"
    by (cases v) (simp_all add: absent_or_object_def)
  show ?thesis
  proof (cases "dict_contains ''prettier'' deps")
    case True
    with Some v show ?thesis by (simp add: remover_found other_fields_dict_setitem)
  next
    case False
    with Some v show ?thesis by (simp add: remover_object_missing)
  qed
qed

lemma remover_frame:
  assumes "remove_prettier_transform (JObj d) = Inr (out, line)"
  shows "\<exists>d'. out = JObj d' \<and> other_fields ''devDependencies'' d' = other_fields ''devDependencies'' d"
proof (cases "\<exists>deps. map_of d ''devDependencies'' = Some (JObj deps) \<and> dict_contains ''prettier'' deps")
  case True
  then obtain deps where "map_of d ''devDependencies'' = Some (JObj deps)"
    "dict_contains ''prettier'' deps" by blast
  with assms show ?thesis by (auto simp: remover_found other_fields_dict_setitem)
next
  case False
  from remover_otherwise [OF False] assms show ?thesis by auto
qed

lemma remove_prettier_exit:
  "exit_code (remove_prettier (Loaded data)) = 0 \<longleftrightarrow>
     (\<exists>out line. remove_prettier_transform data = Inr (out, line))"
  by (auto simp: remove_prettier_def uncaught_def split: sum.splits)

lemma remover_run_test_false:
  assumes "map_of kvs ''devDependencies'' = Some w" and "\<not> is_object w"
    and "py_contains ''prettier'' w = Inr False"
  shows "remove_prettier (Loaded (JObj kvs)) =
          \<lparr>stdout = [Dump (JObj kvs) 2],
           stderr = [Print ''prettier not found in devDependencies or devDependencies section missing.''],
           exit_code = 0\<rparr>"
proof -
  from assms(3) have "remove_prettier_transform (JObj kvs) =
      Inr (JObj kvs, ''prettier not found in devDependencies or devDependencies section missing.'')"
    by (simp add: remover_not_object [OF assms(1,2)])
  then show ?thesis by (simp add: remove_prettier_def)
qed

lemma remover_run_raises:
  assumes "map_of kvs ''devDependencies'' = Some v" and "\<not> is_object v"
    and "py_contains ''prettier'' v \<noteq> Inr False"
  shows "remove_prettier (Loaded (JObj kvs)) =
          \<lparr>stdout = [], stderr = [Traceback TypeError], exit_code = 1\<rparr>"
proof -
  from assms(3) have "remove_prettier_transform (JObj kvs) = Inl TypeError"
    by (simp add: remover_not_object [OF assms(1,2)])
  then show ?thesis by (simp add: remove_prettier_def uncaught_def)
qed

section \<open>The Script-Editor: the fixed scripts\<close>

text \<open>
  C1, as the code has it: for every JSON-object manifest whose \<^verbatim>\<open>scripts\<close> field is
  missing or is itself a JSON object, the Script-Editor dumps a manifest whose
  \<^verbatim>\<open>scripts\<close> field maps \<^verbatim>\<open>build\<close>, \<^verbatim>\<open>lint\<close>, \<^verbatim>\<open>lint:fix\<close>, \<^verbatim>\<open>format\<close> and
  \<^verbatim>\<open>format:fix\<close> to their fixed commands and has no key \<^verbatim>\<open>lint:format\<close>; when the
  input had no \<^verbatim>\<open>scripts\<close> field, one is created after the existing fields. When
  \<^verbatim>\<open>scripts\<close> is bound to anything else (a number, a string, an array, \<^verbatim>\<open>null\<close>, a
  boolean), line 16 raises \<^verbatim>\<open>TypeError\<close> and nothing is dumped.
\<close>

theorem script_editor_fixed_scripts:
  "(absent_or_object ''scripts'' kvs \<longrightarrow>
      (\<exists>kvs' sc'.
         modify_package (Loaded (JObj kvs)) =
           \<lparr>stdout = [Dump (JObj kvs') 2], stderr = [], exit_code = 0\<rparr>
       \<and> map_of kvs' ''scripts'' = Some (JObj sc')
       \<and> map_of sc' ''build'' = Some (JStr ''bun build.ts'')
       \<and> map_of sc' ''lint'' = Some (JStr ''bun biome lint .'')
       \<and> map_of sc' ''lint:fix'' = Some (JStr ''bun biome lint --apply .'')
       \<and> map_of sc' ''format'' = Some (JStr ''bun biome format .'')
       \<and> map_of sc' ''format:fix'' = Some (JStr ''bun biome format --write .'')
       \<and> map_of sc' ''lint:format'' = None
       \<and> (map_of kvs ''scripts'' = None \<longrightarrow> kvs' = kvs @ [(''scripts'', JObj sc')])))
   \<and> (\<not> absent_or_object ''scripts'' kvs \<longrightarrow>
        modify_package (Loaded (JObj kvs)) =
          \<lparr>stdout = [], stderr = [Traceback TypeError], exit_code = 1\<rparr>)"
proof (intro conjI impI)
  assume ok: "absent_or_object ''scripts'' kvs"
  let ?sc = "edit_scripts (scripts_of kvs)"
  let ?kvs = "dict_setitem ''scripts'' (JObj ?sc) kvs"
  have run: "modify_package (Loaded (JObj kvs)) =
      \<lparr>stdout = [Dump (JObj ?kvs) 2], stderr = [], exit_code = 0\<rparr>"
    by (simp add: modify_package_def transform_object [OF ok])
  have bound: "map_of ?kvs ''scripts'' = Some (JObj ?sc)"
    by (simp add: map_of_dict_setitem)
  have created: "map_of kvs ''scripts'' = None \<longrightarrow> ?kvs = kvs @ [(''scripts'', JObj ?sc)]"
    by (simp add: dict_setitem_absent)
  have entries:
    "map_of ?sc ''build'' = Some (JStr ''bun build.ts'')"
    "map_of ?sc ''lint'' = Some (JStr ''bun biome lint .'')"
    "map_of ?sc ''lint:fix'' = Some (JStr ''bun biome lint --apply .'')"
    "map_of ?sc ''format'' = Some (JStr ''bun biome format .'')"
    "map_of ?sc ''format:fix'' = Some (JStr ''bun biome format --write .'')"
    "map_of ?sc ''lint:format'' = None"
    by (simp_all add: map_of_edit_scripts)
  from run bound created entries
  show "\<exists>kvs' sc'.
         modify_package (Loaded (JObj kvs)) =
           \<lparr>stdout = [Dump (JObj kvs') 2], stderr = [], exit_code = 0\<rparr>
       \<and> map_of kvs' ''scripts'' = Some (JObj sc')
       \<and> map_of sc' ''build'' = Some (JStr ''bun build.ts'')
       \<and> map_of sc' ''lint'' = Some (JStr ''bun biome lint .'')
       \<and> map_of sc' ''lint:fix'' = Some (JStr ''bun biome lint --apply .'')
       \<and> map_of sc' ''format'' = Some (JStr ''bun biome format .'')
       \<and> map_of sc' ''format:fix'' = Some (JStr ''bun biome format --write .'')
       \<and> map_of sc' ''lint:format'' = None
       \<and> (map_of kvs ''scripts'' = None \<longrightarrow> kvs' = kvs @ [(''scripts'', JObj sc')])"
    by (intro exI [of _ ?kvs] exI [of _ ?sc] conjI)
next
  assume "\<not> absent_or_object ''scripts'' kvs"
  then show "modify_package (Loaded (JObj kvs)) =
          \<lparr>stdout = [], stderr = [Traceback TypeError], exit_code = 1\<rparr>"
    by (simp add: modify_package_def transform_not_object uncaught_def)
qed

text \<open>The theorem at a manifest without \<^verbatim>\<open>scripts\<close> and at one whose \<^verbatim>\<open>scripts\<close> is an
  array.\<close>

theorem script_editor_fixed_scripts_witness:
  "absent_or_object ''scripts'' [(''name'', JStr ''env-twin'')]
   \<and> map_of [(''name'', JStr ''env-twin'')] ''scripts'' = None
   \<and> (\<exists>sc'. modify_package (Loaded (JObj [(''name'', JStr ''env-twin'')])) =
           \<lparr>stdout = [Dump (JObj [(''name'', JStr ''env-twin''), (''scripts'', JObj sc')]) 2],
            stderr = [], exit_code = 0\<rparr>
       \<and> map_of sc' ''build'' = Some (JStr ''bun build.ts'')
       \<and> map_of sc' ''lint:format'' = None)
   \<and> \<not> absent_or_object ''scripts'' [(''scripts'', JArr [])]
   \<and> modify_package (Loaded (JObj [(''scripts'', JArr [])])) =
          \<lparr>stdout = [], stderr = [Traceback TypeError], exit_code = 1\<rparr>"
proof -
  have a: "absent_or_object ''scripts'' [(''name'', JStr ''env-twin'')]"
    and n: "map_of [(''name'', JStr ''env-twin'')] ''scripts'' = None"
    and b: "\<not> absent_or_object ''scripts'' [(''scripts'', JArr [])]"
    by (simp_all add: absent_or_object_def)
  from a n b script_editor_fixed_scripts [of "[(''name'', JStr ''env-twin'')]"]
    script_editor_fixed_scripts [of "[(''scripts'', JArr [])]"]
  show ?thesis by auto
qed

text \<open>The manifest \<^verbatim>\<open>{"scripts": 5}\<close> is a JSON object, and the run on it dumps no
  manifest at all: \<^verbatim>\<open>data['scripts']['build'] = ...\<close> assigns into an \<^verbatim>\<open>int\<close>.\<close>

theorem script_editor_fixed_scripts_counterexample:
  "modify_package (Loaded (JObj [(''scripts'', JInt 5)])) =
     \<lparr>stdout = [], stderr = [Traceback TypeError], exit_code = 1\<rparr>"
  by (simp add: modify_package_def modify_package_transform_def ensure_scripts_def
      setitem_in_def then_do_def dict_contains_def uncaught_def)

section \<open>The Dependency-Remover: its two branches\<close>

text \<open>
  C2, as the code has it: when \<^verbatim>\<open>devDependencies\<close> is a JSON object with the key
  \<^verbatim>\<open>prettier\<close>, the Dependency-Remover removes that entry (the other entries and the
  position of \<^verbatim>\<open>devDependencies\<close> stay) and prints exactly
  \<^verbatim>\<open>Removed prettier from devDependencies.\<close>. Otherwise the manifest is dumped as it
  was read and the line printed is exactly
  \<^verbatim>\<open>prettier not found in devDependencies or devDependencies section missing.\<close>:
  so it is when \<^verbatim>\<open>devDependencies\<close> is missing, when it is a JSON object without the
  key, and when it is not a JSON object and the test \<^verbatim>\<open>'prettier' in\<close> is false of it
  (an array without the element \<^verbatim>\<open>"prettier"\<close>, a string in which \<^verbatim>\<open>prettier\<close> does
  not occur). The one exception is a \<^verbatim>\<open>devDependencies\<close> that is not a JSON object and
  of which the test is true or raises (an array with the element \<^verbatim>\<open>"prettier"\<close>, a
  string containing \<^verbatim>\<open>prettier\<close>, a number, a boolean, \<^verbatim>\<open>null\<close>): line 10 or line 11
  raises \<^verbatim>\<open>TypeError\<close>, neither line is printed and nothing is dumped. Every run that
  does not raise prints exactly one of the two lines.
\<close>

theorem dependency_remover_branches:
  "(map_of kvs ''devDependencies'' = Some (JObj deps) \<and> dict_contains ''prettier'' deps \<longrightarrow>
      remove_prettier (Loaded (JObj kvs)) =
        \<lparr>stdout = [Dump (JObj (dict_setitem ''devDependencies''
                     (JObj (dict_delitem ''prettier'' deps)) kvs)) 2],
         stderr = [Print ''Removed prettier from devDependencies.''],
         exit_code = 0\<rparr>
      \<and> map_of (dict_delitem ''prettier'' deps) ''prettier'' = None
      \<and> other_fields ''prettier'' (dict_delitem ''prettier'' deps) = other_fields ''prettier'' deps)
   \<and> (absent_or_object ''devDependencies'' kvs \<longrightarrow>
        exit_code (remove_prettier (Loaded (JObj kvs))) = 0)
   \<and> (exit_code (remove_prettier (Loaded (JObj kvs))) = 0
        \<and> \<not> (\<exists>deps. map_of kvs ''devDependencies'' = Some (JObj deps)
                  \<and> dict_contains ''prettier'' deps) \<longrightarrow>
        remove_prettier (Loaded (JObj kvs)) =
          \<lparr>stdout = [Dump (JObj kvs) 2],
           stderr = [Print ''prettier not found in devDependencies or devDependencies section missing.''],
           exit_code = 0\<rparr>)
   \<and> (exit_code (remove_prettier (Loaded (JObj kvs))) = 0 \<longrightarrow>
        stderr (remove_prettier (Loaded (JObj kvs))) =
          [Print ''Removed prettier from devDependencies.'']
      \<or> stderr (remove_prettier (Loaded (JObj kvs))) =
          [Print ''prettier not found in devDependencies or devDependencies section missing.''])
   \<and> (map_of kvs ''devDependencies'' = Some v \<and> \<not> is_object v
        \<and> py_contains ''prettier'' v = Inr False \<longrightarrow>
        remove_prettier (Loaded (JObj kvs)) =
          \<lparr>stdout = [Dump (JObj kvs) 2],
           stderr = [Print ''prettier not found in devDependencies or devDependencies section missing.''],
           exit_code = 0\<rparr>)
   \<and> (map_of kvs ''devDependencies'' = Some v \<and> \<not> is_object v
        \<and> py_contains ''prettier'' v \<noteq> Inr False \<longrightarrow>
        remove_prettier (Loaded (JObj kvs)) =
          \<lparr>stdout = [], stderr = [Traceback TypeError], exit_code = 1\<rparr>)
   \<and> (map_of kvs ''devDependencies'' = Some (JArr xs) \<and> JStr ''prettier'' \<notin> set xs \<longrightarrow>
        remove_prettier (Loaded (JObj kvs)) =
          \<lparr>stdout = [Dump (JObj kvs) 2],
           stderr = [Print ''prettier not found in devDependencies or devDependencies section missing.''],
           exit_code = 0\<rparr>)
   \<and> (map_of kvs ''devDependencies'' = Some (JStr s) \<and> \<not> str_contains ''prettier'' s \<longrightarrow>
        remove_prettier (Loaded (JObj kvs)) =
          \<lparr>stdout = [Dump (JObj kvs) 2],
           stderr = [Print ''prettier not found in devDependencies or devDependencies section missing.''],
           exit_code = 0\<rparr>)
   \<and> (map_of kvs ''devDependencies'' = None \<longrightarrow>
        remove_prettier (Loaded (JObj kvs)) =
          \<lparr>stdout = [Dump (JObj kvs) 2],
           stderr = [Print ''prettier not found in devDependencies or devDependencies section missing.''],
           exit_code = 0\<rparr>)
   \<and> (map_of kvs ''devDependencies'' = Some (JObj deps) \<and> \<not> dict_contains ''prettier'' deps \<longrightarrow>
        remove_prettier (Loaded (JObj kvs)) =
          \<lparr>stdout = [Dump (JObj kvs) 2],
           stderr = [Print ''prettier not found in devDependencies or devDependencies section missing.''],
           exit_code = 0\<rparr>)"
proof -
  have removed: "remove_prettier (Loaded (JObj kvs)) =
        \<lparr>stdout = [Dump (JObj (dict_setitem ''devDependencies''
                     (JObj (dict_delitem ''prettier'' deps)) kvs)) 2],
         stderr = [Print ''Removed prettier from devDependencies.''],
         exit_code = 0\<rparr>
      \<and> map_of (dict_delitem ''prettier'' deps) ''prettier'' = None
      \<and> other_fields ''prettier'' (dict_delitem ''prettier'' deps) = other_fields ''prettier'' deps"
    if "map_of kvs ''devDependencies'' = Some (JObj deps)" "dict_contains ''prettier'' deps"
    using that
    by (simp add: remove_prettier_def remover_found map_of_dict_delitem
        other_fields_dict_delitem)
  have typed: "exit_code (remove_prettier (Loaded (JObj kvs))) = 0"
    if "absent_or_object ''devDependencies'' kvs"
    using remover_typed [OF that] by (auto simp: remove_prettier_exit)
  have otherwise: "remove_prettier (Loaded (JObj kvs)) =
          \<lparr>stdout = [Dump (JObj kvs) 2],
           stderr = [Print ''prettier not found in devDependencies or devDependencies section missing.''],
           exit_code = 0\<rparr>"
    if "exit_code (remove_prettier (Loaded (JObj kvs))) = 0"
      "\<not> (\<exists>deps. map_of kvs ''devDependencies'' = Some (JObj deps)
                  \<and> dict_contains ''prettier'' deps)"
    using remover_otherwise [OF that(2)] that(1)
    by (auto simp: remove_prettier_def uncaught_def)
  have one_line: "stderr (remove_prettier (Loaded (JObj kvs))) =
          [Print ''Removed prettier from devDependencies.'']
      \<or> stderr (remove_prettier (Loaded (JObj kvs))) =
          [Print ''prettier not found in devDependencies or devDependencies section missing.'']"
    if ok: "exit_code (remove_prettier (Loaded (JObj kvs))) = 0"
  proof (cases "\<exists>deps. map_of kvs ''devDependencies'' = Some (JObj deps)
                  \<and> dict_contains ''prettier'' deps")
    case True
    then obtain ds where "map_of kvs ''devDependencies'' = Some (JObj ds)"
      "dict_contains ''prettier'' ds" by blast
    then show ?thesis by (simp add: remove_prettier_def remover_found)
  next
    case False
    from remover_otherwise [OF False] ok show ?thesis
      by (auto simp: remove_prettier_def uncaught_def)
  qed
  have test_false: "remove_prettier (Loaded (JObj kvs)) =
          \<lparr>stdout = [Dump (JObj kvs) 2],
           stderr = [Print ''prettier not found in devDependencies or devDependencies section missing.''],
           exit_code = 0\<rparr>"
    if "map_of kvs ''devDependencies'' = Some w" "\<not> is_object w"
      "py_contains ''prettier'' w = Inr False" for w
    using that by (rule remover_run_test_false)
  have raises: "remove_prettier (Loaded (JObj kvs)) =
          \<lparr>stdout = [], stderr = [Traceback TypeError], exit_code = 1\<rparr>"
    if "map_of kvs ''devDependencies'' = Some v" "\<not> is_object v"
      "py_contains ''prettier'' v \<noteq> Inr False"
    using that by (rule remover_run_raises)
  have array: "remove_prettier (Loaded (JObj kvs)) =
          \<lparr>stdout = [Dump (JObj kvs) 2],
           stderr = [Print ''prettier not found in devDependencies or devDependencies section missing.''],
           exit_code = 0\<rparr>"
    if "map_of kvs ''devDependencies'' = Some (JArr xs)" "JStr ''prettier'' \<notin> set xs"
    using that by (intro test_false [of "JArr xs"]) simp_all
  have str: "remove_prettier (Loaded (JObj kvs)) =
          \<lparr>stdout = [Dump (JObj kvs) 2],
           stderr = [Print ''prettier not found in devDependencies or devDependencies section missing.''],
           exit_code = 0\<rparr>"
    if "map_of kvs ''devDependencies'' = Some (JStr s)" "\<not> str_contains ''prettier'' s"
    using that by (intro test_false [of "JStr s"]) simp_all
  have absent: "remove_prettier (Loaded (JObj kvs)) =
          \<lparr>stdout = [Dump (JObj kvs) 2],
           stderr = [Print ''prettier not found in devDependencies or devDependencies section missing.''],
           exit_code = 0\<rparr>"
    if "map_of kvs ''devDependencies'' = None"
    using that by (simp add: remove_prettier_def remover_absent)
  have lacking: "remove_prettier (Loaded (JObj kvs)) =
          \<lparr>stdout = [Dump (JObj kvs) 2],
           stderr = [Print ''prettier not found in devDependencies or devDependencies section missing.''],
           exit_code = 0\<rparr>"
    if "map_of kvs ''devDependencies'' = Some (JObj deps)" "\<not> dict_contains ''prettier'' deps"
    using that by (simp add: remove_prettier_def remover_object_missing)
  have c1: "map_of kvs ''devDependencies'' = Some (JObj deps)
        \<and> dict_contains ''prettier'' deps \<longrightarrow>
      remove_prettier (Loaded (JObj kvs)) =
        \<lparr>stdout = [Dump (JObj (dict_setitem ''devDependencies''
                     (JObj (dict_delitem ''prettier'' deps)) kvs)) 2],
         stderr = [Print ''Removed prettier from devDependencies.''],
         exit_code = 0\<rparr>
      \<and> map_of (dict_delitem ''prettier'' deps) ''prettier'' = None
      \<and> other_fields ''prettier'' (dict_delitem ''prettier'' deps) = other_fields ''prettier'' deps"
    using removed by blast
  have c2: "absent_or_object ''devDependencies'' kvs \<longrightarrow>
        exit_code (remove_prettier (Loaded (JObj kvs))) = 0"
    using typed by blast
  have c3: "exit_code (remove_prettier (Loaded (JObj kvs))) = 0
        \<and> \<not> (\<exists>deps. map_of kvs ''devDependencies'' = Some (JObj deps)
                  \<and> dict_contains ''prettier'' deps) \<longrightarrow>
        remove_prettier (Loaded (JObj kvs)) =
          \<lparr>stdout = [Dump (JObj kvs) 2],
           stderr = [Print ''prettier not found in devDependencies or devDependencies section missing.''],
           exit_code = 0\<rparr>"
    using otherwise by blast
  have c4: "exit_code (remove_prettier (Loaded (JObj kvs))) = 0 \<longrightarrow>
        stderr (remove_prettier (Loaded (JObj kvs))) =
          [Print ''Removed prettier from devDependencies.'']
      \<or> stderr (remove_prettier (Loaded (JObj kvs))) =
          [Print ''prettier not found in devDependencies or devDependencies section missing.'']"
    using one_line by blast
  have c5: "map_of kvs ''devDependencies'' = Some v \<and> \<not> is_object v
        \<and> py_contains ''prettier'' v = Inr False \<longrightarrow>
        remove_prettier (Loaded (JObj kvs)) =
          \<lparr>stdout = [Dump (JObj kvs) 2],
           stderr = [Print ''prettier not found in devDependencies or devDependencies section missing.''],
           exit_code = 0\<rparr>"
    using test_false [of v] by blast
  have c6: "map_of kvs ''devDependencies'' = Some v \<and> \<not> is_object v
        \<and> py_contains ''prettier'' v \<noteq> Inr False \<longrightarrow>
        remove_prettier (Loaded (JObj kvs)) =
          \<lparr>stdout = [], stderr = [Traceback TypeError], exit_code = 1\<rparr>"
    using raises by blast
  have c7: "map_of kvs ''devDependencies'' = Some (JArr xs) \<and> JStr ''prettier'' \<notin> set xs \<longrightarrow>
        remove_prettier (Loaded (JObj kvs)) =
          \<lparr>stdout = [Dump (JObj kvs) 2],
           stderr = [Print ''prettier not found in devDependencies or devDependencies section missing.''],
           exit_code = 0\<rparr>"
    using array by blast
  have c8: "map_of kvs ''devDependencies'' = Some (JStr s) \<and> \<not> str_contains ''prettier'' s \<longrightarrow>
        remove_prettier (Loaded (JObj kvs)) =
          \<lparr>stdout = [Dump (JObj kvs) 2],
           stderr = [Print ''prettier not found in devDependencies or devDependencies section missing.''],
           exit_code = 0\<rparr>"
    using str by blast
  have c9: "map_of kvs ''devDependencies'' = None \<longrightarrow>
        remove_prettier (Loaded (JObj kvs)) =
          \<lparr>stdout = [Dump (JObj kvs) 2],
           stderr = [Print ''prettier not found in devDependencies or devDependencies section missing.''],
           exit_code = 0\<rparr>"
    using absent by blast
  have c10: "map_of kvs ''devDependencies'' = Some (JObj deps) \<and> \<not> dict_contains ''prettier'' deps \<longrightarrow>
        remove_prettier (Loaded (JObj kvs)) =
          \<lparr>stdout = [Dump (JObj kvs) 2],
           stderr = [Print ''prettier not found in devDependencies or devDependencies section missing.''],
           exit_code = 0\<rparr>"
    using lacking by blast
  show ?thesis
    by (intro conjI) (rule c1 c2 c3 c4 c5 c6 c7 c8 c9 c10)+
qed

text \<open>The theorem on scenarios 6 and 7 of the specification, on a \<^verbatim>\<open>devDependencies\<close>
  that is the string \<^verbatim>\<open>"prettie"\<close> or the empty array (not found, exit code 0), and on
  one that is \<^verbatim>\<open>true\<close> (\<^verbatim>\<open>TypeError\<close>).\<close>

theorem dependency_remover_branches_witness:
  "map_of [(''devDependencies'', JObj [(''prettier'', JStr ''^3.0.0''), (''typescript'', JStr ''^5.0.0'')])]
       ''devDependencies'' = Some (JObj [(''prettier'', JStr ''^3.0.0''), (''typescript'', JStr ''^5.0.0'')])
   \<and> dict_contains ''prettier'' [(''prettier'', JStr ''^3.0.0''), (''typescript'', JStr ''^5.0.0'')]
   \<and> remove_prettier (Loaded (JObj
        [(''devDependencies'', JObj [(''prettier'', JStr ''^3.0.0''), (''typescript'', JStr ''^5.0.0'')])])) =
        \<lparr>stdout = [Dump (JObj [(''devDependencies'', JObj [(''typescript'', JStr ''^5.0.0'')])]) 2],
         stderr = [Print ''Removed prettier from devDependencies.''],
         exit_code = 0\<rparr>
   \<and> absent_or_object ''devDependencies'' [(''devDependencies'', JObj [(''typescript'', JStr ''^5.0.0'')])]
   \<and> exit_code (remove_prettier (Loaded (JObj
        [(''devDependencies'', JObj [(''typescript'', JStr ''^5.0.0'')])]))) = 0
   \<and> remove_prettier (Loaded (JObj
        [(''devDependencies'', JObj [(''typescript'', JStr ''^5.0.0'')])])) =
        \<lparr>stdout = [Dump (JObj [(''devDependencies'', JObj [(''typescript'', JStr ''^5.0.0'')])]) 2],
         stderr = [Print ''prettier not found in devDependencies or devDependencies section missing.''],
         exit_code = 0\<rparr>
   \<and> \<not> is_object (JStr ''prettie'')
   \<and> py_contains ''prettier'' (JStr ''prettie'') = Inr False
   \<and> remove_prettier (Loaded (JObj [(''devDependencies'', JStr ''prettie'')])) =
        \<lparr>stdout = [Dump (JObj [(''devDependencies'', JStr ''prettie'')]) 2],
         stderr = [Print ''prettier not found in devDependencies or devDependencies section missing.''],
         exit_code = 0\<rparr>
   \<and> remove_prettier (Loaded (JObj [(''devDependencies'', JArr [])])) =
        \<lparr>stdout = [Dump (JObj [(''devDependencies'', JArr [])]) 2],
         stderr = [Print ''prettier not found in devDependencies or devDependencies section missing.''],
         exit_code = 0\<rparr>
   \<and> \<not> is_object (JBool True)
   \<and> py_contains ''prettier'' (JBool True) \<noteq> Inr False
   \<and> remove_prettier (Loaded (JObj [(''devDependencies'', JBool True)])) =
        \<lparr>stdout = [], stderr = [Traceback TypeError], exit_code = 1\<rparr>
   \<and> remove_prettier (Loaded (JObj [(''name'', JStr ''env-twin'')])) =
        \<lparr>stdout = [Dump (JObj [(''name'', JStr ''env-twin'')]) 2],
         stderr = [Print ''prettier not found in devDependencies or devDependencies section missing.''],
         exit_code = 0\<rparr>"
proof -
  let ?deps = "[(''prettier'', JStr ''^3.0.0''), (''typescript'', JStr ''^5.0.0'')]"
  let ?rest = "[(''typescript'', JStr ''^5.0.0'')]"
  have found: "map_of [(''devDependencies'', JObj ?deps)] ''devDependencies'' = Some (JObj ?deps)"
    "dict_contains ''prettier'' ?deps"
    by (simp_all add: dict_contains_def)
  have typed: "absent_or_object ''devDependencies'' [(''devDependencies'', JObj ?rest)]"
    by (simp add: absent_or_object_def)
  have lacking: "map_of [(''devDependencies'', JObj ?rest)] ''devDependencies'' = Some (JObj ?rest)"
    "\<not> dict_contains ''prettier'' ?rest"
    by (simp_all add: dict_contains_def)
  have str: "map_of [(''devDependencies'', JStr ''prettie'')] ''devDependencies'' = Some (JStr ''prettie'')"
    "\<not> is_object (JStr ''prettie'')" "py_contains ''prettier'' (JStr ''prettie'') = Inr False"
    by simp_all
  have arr: "map_of [(''devDependencies'', JArr [])] ''devDependencies'' = Some (JArr [])"
    "JStr ''prettier'' \<notin> set []"
    by simp_all
  have bool: "map_of [(''devDependencies'', JBool True)] ''devDependencies'' = Some (JBool True)"
    "\<not> is_object (JBool True)" "py_contains ''prettier'' (JBool True) \<noteq> Inr False"
    by simp_all
  have none: "map_of [(''name'', JStr ''env-twin'')] ''devDependencies'' = None"
    by simp
  have r1: "remove_prettier (Loaded (JObj [(''devDependencies'', JObj ?deps)])) =
        \<lparr>stdout = [Dump (JObj [(''devDependencies'', JObj ?rest)]) 2],
         stderr = [Print ''Removed prettier from devDependencies.''],
         exit_code = 0\<rparr>"
    using found dependency_remover_branches [of "[(''devDependencies'', JObj ?deps)]" ?deps]
    by (simp add: dict_delitem_def)
  have r2: "exit_code (remove_prettier (Loaded (JObj [(''devDependencies'', JObj ?rest)]))) = 0"
    using typed dependency_remover_branches [of "[(''devDependencies'', JObj ?rest)]"]
    by blast
  have r3: "remove_prettier (Loaded (JObj [(''devDependencies'', JObj ?rest)])) =
        \<lparr>stdout = [Dump (JObj [(''devDependencies'', JObj ?rest)]) 2],
         stderr = [Print ''prettier not found in devDependencies or devDependencies section missing.''],
         exit_code = 0\<rparr>"
    using lacking dependency_remover_branches [of "[(''devDependencies'', JObj ?rest)]" ?rest]
    by blast
  have r4: "remove_prettier (Loaded (JObj [(''devDependencies'', JStr ''prettie'')])) =
        \<lparr>stdout = [Dump (JObj [(''devDependencies'', JStr ''prettie'')]) 2],
         stderr = [Print ''prettier not found in devDependencies or devDependencies section missing.''],
         exit_code = 0\<rparr>"
    using str dependency_remover_branches
      [of "[(''devDependencies'', JStr ''prettie'')]" _ "JStr ''prettie''"]
    by blast
  have r5: "remove_prettier (Loaded (JObj [(''devDependencies'', JArr [])])) =
        \<lparr>stdout = [Dump (JObj [(''devDependencies'', JArr [])]) 2],
         stderr = [Print ''prettier not found in devDependencies or devDependencies section missing.''],
         exit_code = 0\<rparr>"
    using arr dependency_remover_branches
      [of "[(''devDependencies'', JArr [])]" _ _ "[]"]
    by blast
  have r6: "remove_prettier (Loaded (JObj [(''devDependencies'', JBool True)])) =
        \<lparr>stdout = [], stderr = [Traceback TypeError], exit_code = 1\<rparr>"
    using bool dependency_remover_branches
      [of "[(''devDependencies'', JBool True)]" _ "JBool True"]
    by blast
  have r7: "remove_prettier (Loaded (JObj [(''name'', JStr ''env-twin'')])) =
        \<lparr>stdout = [Dump (JObj [(''name'', JStr ''env-twin'')]) 2],
         stderr = [Print ''prettier not found in devDependencies or devDependencies section missing.''],
         exit_code = 0\<rparr>"
    using none dependency_remover_branches [of "[(''name'', JStr ''env-twin'')]"]
    by blast
  show ?thesis
    by (intro conjI) (rule found typed str(2,3) bool(2,3) r1 r2 r3 r4 r5 r6 r7)+
qed

text \<open>The manifest \<^verbatim>\<open>{"devDependencies": null}\<close> has no mapping with the key
  \<^verbatim>\<open>prettier\<close>, yet the run prints neither line: \<^verbatim>\<open>'prettier' in None\<close> raises
  \<^verbatim>\<open>TypeError\<close>.\<close>

theorem dependency_remover_branches_counterexample:
  "remove_prettier (Loaded (JObj [(''devDependencies'', JNull)])) =
     \<lparr>stdout = [], stderr = [Traceback TypeError], exit_code = 1\<rparr>"
  by (simp add: remove_prettier_def remove_prettier_transform_def has_prettier_def
      then_do_def dict_contains_def uncaught_def)

section \<open>Input that does not parse\<close>

text \<open>
  C3, as the code has it: when \<^verbatim>\<open>json.load\<close> raises \<^verbatim>\<open>JSONDecodeError\<close>, each filter
  writes nothing to standard output, prints \<^verbatim>\<open>Error decoding JSON: \<close> followed by
  the parser's message to standard error, and exits with code 1. A parsed JSON object
  whose \<^verbatim>\<open>scripts\<close> field (Script-Editor) or \<^verbatim>\<open>devDependencies\<close> field
  (Dependency-Remover) is missing or a JSON object makes the filter exit with code 0;
  among those inputs the parse error is the only way to exit code 1.
\<close>

theorem decode_error_exit:
  "modify_package (JSONDecodeError msg) =
     \<lparr>stdout = [], stderr = [Print (''Error decoding JSON: '' @ msg)], exit_code = 1\<rparr>
   \<and> remove_prettier (JSONDecodeError msg) =
     \<lparr>stdout = [], stderr = [Print (''Error decoding JSON: '' @ msg)], exit_code = 1\<rparr>
   \<and> (absent_or_object ''scripts'' kvs \<longrightarrow> exit_code (modify_package (Loaded (JObj kvs))) = 0)
   \<and> (absent_or_object ''devDependencies'' kvs \<longrightarrow>
        exit_code (remove_prettier (Loaded (JObj kvs))) = 0)"
proof (intro conjI impI)
  show "modify_package (JSONDecodeError msg) =
     \<lparr>stdout = [], stderr = [Print (''Error decoding JSON: '' @ msg)], exit_code = 1\<rparr>"
    by (simp add: modify_package_def decode_failed_def)
  show "remove_prettier (JSONDecodeError msg) =
     \<lparr>stdout = [], stderr = [Print (''Error decoding JSON: '' @ msg)], exit_code = 1\<rparr>"
    by (simp add: remove_prettier_def decode_failed_def)
next
  assume "absent_or_object ''scripts'' kvs"
  then show "exit_code (modify_package (Loaded (JObj kvs))) = 0"
    by (simp add: modify_package_exit transform_object)
next
  assume "absent_or_object ''devDependencies'' kvs"
  from remover_typed [OF this]
  show "exit_code (remove_prettier (Loaded (JObj kvs))) = 0"
    by (auto simp: remove_prettier_exit)
qed

text \<open>The theorem at the parser's message for the text \<^verbatim>\<open>not json\<close> and at the manifest
  \<^verbatim>\<open>{"version": 1}\<close>.\<close>

theorem decode_error_exit_witness:
  "modify_package (JSONDecodeError ''Expecting value: line 1 column 1 (char 0)'') =
     \<lparr>stdout = [],
      stderr = [Print ''Error decoding JSON: Expecting value: line 1 column 1 (char 0)''],
      exit_code = 1\<rparr>
   \<and> remove_prettier (JSONDecodeError ''Expecting value: line 1 column 1 (char 0)'') =
     \<lparr>stdout = [],
      stderr = [Print ''Error decoding JSON: Expecting value: line 1 column 1 (char 0)''],
      exit_code = 1\<rparr>
   \<and> absent_or_object ''scripts'' [(''version'', JInt 1)]
   \<and> exit_code (modify_package (Loaded (JObj [(''version'', JInt 1)]))) = 0
   \<and> absent_or_object ''devDependencies'' [(''version'', JInt 1)]
   \<and> exit_code (remove_prettier (Loaded (JObj [(''version'', JInt 1)]))) = 0"
proof -
  have typed: "absent_or_object ''scripts'' [(''version'', JInt 1)]"
    "absent_or_object ''devDependencies'' [(''version'', JInt 1)]"
    by (simp_all add: absent_or_object_def)
  from typed
    decode_error_exit [of "''Expecting value: line 1 column 1 (char 0)''" "[(''version'', JInt 1)]"]
  show ?thesis by simp
qed

text \<open>Two documents that parse, and still end with exit code 1: \<^verbatim>\<open>{"scripts": []}\<close>
  for the Script-Editor and \<^verbatim>\<open>{"devDependencies": "prettier"}\<close> for the
  Dependency-Remover. Each raises \<^verbatim>\<open>TypeError\<close>, which nothing catches.\<close>

theorem decode_error_exit_counterexample:
  "exit_code (modify_package (Loaded (JObj [(''scripts'', JArr [])]))) = 1
   \<and> exit_code (remove_prettier (Loaded (JObj [(''devDependencies'', JStr ''prettier'')]))) = 1"
  by (simp add: modify_package_def modify_package_transform_def ensure_scripts_def
      setitem_in_def remove_prettier_def remove_prettier_transform_def has_prettier_def
      delitem_in_def then_do_def dict_contains_def uncaught_def)

section \<open>The fields a filter does not name\<close>

text \<open>
  C4, as the code has it: a JSON-object manifest whose \<^verbatim>\<open>scripts\<close> field (Script-Editor)
  or \<^verbatim>\<open>devDependencies\<close> field (Dependency-Remover) is missing or a JSON object makes the
  filter run to the end; and on every run that does not raise, standard output receives
  exactly one \<^verbatim>\<open>json.dump\<close> of the whole manifest with \<^verbatim>\<open>indent=2\<close>, in which the
  top-level fields other than \<^verbatim>\<open>scripts\<close> (respectively \<^verbatim>\<open>devDependencies\<close>) are those of
  the input, with the same values and in the same order.
\<close>

theorem other_fields_preserved:
  "(absent_or_object ''scripts'' kvs \<longrightarrow> exit_code (modify_package (Loaded (JObj kvs))) = 0)
   \<and> (absent_or_object ''devDependencies'' kvs \<longrightarrow>
        exit_code (remove_prettier (Loaded (JObj kvs))) = 0)
   \<and> (exit_code (modify_package (Loaded (JObj kvs))) = 0 \<longrightarrow>
        (\<exists>kvs'. stdout (modify_package (Loaded (JObj kvs))) = [Dump (JObj kvs') 2]
           \<and> other_fields ''scripts'' kvs' = other_fields ''scripts'' kvs))
   \<and> (exit_code (remove_prettier (Loaded (JObj kvs))) = 0 \<longrightarrow>
        (\<exists>kvs'. stdout (remove_prettier (Loaded (JObj kvs))) = [Dump (JObj kvs') 2]
           \<and> other_fields ''devDependencies'' kvs' = other_fields ''devDependencies'' kvs))"
proof (intro conjI impI)
  assume "absent_or_object ''scripts'' kvs"
  then show "exit_code (modify_package (Loaded (JObj kvs))) = 0"
    by (simp add: modify_package_exit transform_object)
next
  assume "absent_or_object ''devDependencies'' kvs"
  from remover_typed [OF this]
  show "exit_code (remove_prettier (Loaded (JObj kvs))) = 0"
    by (auto simp: remove_prettier_exit)
next
  assume ran: "exit_code (modify_package (Loaded (JObj kvs))) = 0"
  have typed: "absent_or_object ''scripts'' kvs"
  proof (rule ccontr)
    assume "\<not> absent_or_object ''scripts'' kvs"
    then have "modify_package_transform (JObj kvs) = Inl TypeError"
      by (rule transform_not_object)
    with ran show False by (simp add: modify_package_exit)
  qed
  let ?kvs = "dict_setitem ''scripts'' (JObj (edit_scripts (scripts_of kvs))) kvs"
  have "stdout (modify_package (Loaded (JObj kvs))) = [Dump (JObj ?kvs) 2]"
    by (simp add: modify_package_def transform_object [OF typed])
  moreover have "other_fields ''scripts'' ?kvs = other_fields ''scripts'' kvs"
    by (rule other_fields_dict_setitem)
  ultimately show "\<exists>kvs'. stdout (modify_package (Loaded (JObj kvs))) = [Dump (JObj kvs') 2]
           \<and> other_fields ''scripts'' kvs' = other_fields ''scripts'' kvs"
    by blast
next
  assume "exit_code (remove_prettier (Loaded (JObj kvs))) = 0"
  then obtain out line where run: "remove_prettier_transform (JObj kvs) = Inr (out, line)"
    by (auto simp: remove_prettier_exit)
  from remover_frame [OF run] obtain kvs' where
    out: "out = JObj kvs'"
      "other_fields ''devDependencies'' kvs' = other_fields ''devDependencies'' kvs"
    by blast
  from run out(1) have "stdout (remove_prettier (Loaded (JObj kvs))) = [Dump (JObj kvs') 2]"
    by (simp add: remove_prettier_def)
  with out(2) show "\<exists>kvs'. stdout (remove_prettier (Loaded (JObj kvs))) = [Dump (JObj kvs') 2]
           \<and> other_fields ''devDependencies'' kvs' = other_fields ''devDependencies'' kvs"
    by blast
qed

text \<open>The theorem at a manifest with three fields.\<close>

theorem other_fields_preserved_witness:
  "absent_or_object ''scripts''
     [(''name'', JStr ''env-twin''), (''scripts'', JObj [(''test'', JStr ''bun test'')]), (''private'', JBool True)]
   \<and> absent_or_object ''devDependencies''
     [(''name'', JStr ''env-twin''), (''scripts'', JObj [(''test'', JStr ''bun test'')]), (''private'', JBool True)]
   \<and> exit_code (modify_package (Loaded (JObj
     [(''name'', JStr ''env-twin''), (''scripts'', JObj [(''test'', JStr ''bun test'')]), (''private'', JBool True)]))) = 0
   \<and> exit_code (remove_prettier (Loaded (JObj
     [(''name'', JStr ''env-twin''), (''scripts'', JObj [(''test'', JStr ''bun test'')]), (''private'', JBool True)]))) = 0
   \<and> (\<exists>kvs'. stdout (modify_package (Loaded (JObj
     [(''name'', JStr ''env-twin''), (''scripts'', JObj [(''test'', JStr ''bun test'')]), (''private'', JBool True)]))) =
         [Dump (JObj kvs') 2]
       \<and> other_fields ''scripts'' kvs' = [(''name'', JStr ''env-twin''), (''private'', JBool True)])
   \<and> (\<exists>kvs'. stdout (remove_prettier (Loaded (JObj
     [(''name'', JStr ''env-twin''), (''scripts'', JObj [(''test'', JStr ''bun test'')]), (''private'', JBool True)]))) =
         [Dump (JObj kvs') 2]
       \<and> other_fields ''devDependencies'' kvs' =
         [(''name'', JStr ''env-twin''), (''scripts'', JObj [(''test'', JStr ''bun test'')]), (''private'', JBool True)])"
proof -
  let ?m = "[(''name'', JStr ''env-twin''), (''scripts'', JObj [(''test'', JStr ''bun test'')]),
             (''private'', JBool True)]"
  have typed: "absent_or_object ''scripts'' ?m" "absent_or_object ''devDependencies'' ?m"
    by (simp_all add: absent_or_object_def)
  have fields: "other_fields ''scripts'' ?m = [(''name'', JStr ''env-twin''), (''private'', JBool True)]"
    "other_fields ''devDependencies'' ?m = ?m"
    by (simp_all add: other_fields_def)
  from typed other_fields_preserved [of ?m] show ?thesis
    unfolding fields by simp
qed

text \<open>On \<^verbatim>\<open>{"name": "env-twin", "scripts": null}\<close> the Script-Editor, and on
  \<^verbatim>\<open>{"name": "env-twin", "devDependencies": ["prettier"]}\<close> the Dependency-Remover, write
  nothing to standard output, so the field \<^verbatim>\<open>name\<close> does not appear there.\<close>

theorem other_fields_preserved_counterexample:
  "stdout (modify_package (Loaded (JObj [(''name'', JStr ''env-twin''), (''scripts'', JNull)]))) = []
   \<and> stdout (remove_prettier (Loaded (JObj
       [(''name'', JStr ''env-twin''), (''devDependencies'', JArr [JStr ''prettier''])]))) = []"
  by (simp add: modify_package_def modify_package_transform_def ensure_scripts_def
      setitem_in_def remove_prettier_def remove_prettier_transform_def has_prettier_def
      delitem_in_def then_do_def dict_contains_def uncaught_def)

section \<open>Idempotence\<close>

text \<open>
  C5: the Script-Editor transform is idempotent. For every JSON-object manifest, running
  the transform on the result of the transform gives what the first run gave (when the
  first run raises there is no result, and the sequence raises the same); a manifest
  the transform returns is returned unchanged by a second run, whose process is that of
  the first; and a manifest whose \<^verbatim>\<open>scripts\<close> is missing or a JSON object does give a
  result.
\<close>

theorem script_editor_idempotent:
  "then_do (modify_package_transform (JObj kvs)) modify_package_transform =
     modify_package_transform (JObj kvs)
   \<and> (modify_package_transform (JObj kvs) = Inr out \<longrightarrow>
        modify_package_transform out = Inr out
      \<and> modify_package (Loaded out) = modify_package (Loaded (JObj kvs)))
   \<and> (absent_or_object ''scripts'' kvs \<longrightarrow>
        (\<exists>out. modify_package_transform (JObj kvs) = Inr out))"
proof (intro conjI impI)
  show "then_do (modify_package_transform (JObj kvs)) modify_package_transform =
     modify_package_transform (JObj kvs)"
  proof (cases "modify_package_transform (JObj kvs)")
    case (Inl e)
    then show ?thesis by (simp add: then_do_def)
  next
    case (Inr res)
    from transform_fixpoint [OF Inr] Inr show ?thesis by (simp add: then_do_def)
  qed
next
  assume run: "modify_package_transform (JObj kvs) = Inr out"
  from transform_fixpoint [OF run] show "modify_package_transform out = Inr out" .
  from transform_fixpoint [OF run] run
  show "modify_package (Loaded out) = modify_package (Loaded (JObj kvs))"
    by (simp add: modify_package_def)
next
  assume "absent_or_object ''scripts'' kvs"
  then show "\<exists>out. modify_package_transform (JObj kvs) = Inr out"
    by (simp add: transform_object)
qed

text \<open>The theorem at \<^verbatim>\<open>{"scripts": {"lint:format": "x"}}\<close>.\<close>

theorem script_editor_idempotent_witness:
  "absent_or_object ''scripts'' [(''scripts'', JObj [(''lint:format'', JStr ''x'')])]
   \<and> modify_package_transform (JObj [(''scripts'', JObj [(''lint:format'', JStr ''x'')])]) =
     Inr (JObj [(''scripts'', JObj
        [(''build'', JStr ''bun build.ts''),
         (''lint'', JStr ''bun biome lint .''),
         (''lint:fix'', JStr ''bun biome lint --apply .''),
         (''format'', JStr ''bun biome format .''),
         (''format:fix'', JStr ''bun biome format --write .'')])])
   \<and> modify_package_transform (JObj [(''scripts'', JObj
        [(''build'', JStr ''bun build.ts''),
         (''lint'', JStr ''bun biome lint .''),
         (''lint:fix'', JStr ''bun biome lint --apply .''),
         (''format'', JStr ''bun biome format .''),
         (''format:fix'', JStr ''bun biome format --write .'')])]) =
     modify_package_transform (JObj [(''scripts'', JObj [(''lint:format'', JStr ''x'')])])
   \<and> modify_package (Loaded (JObj [(''scripts'', JObj
        [(''build'', JStr ''bun build.ts''),
         (''lint'', JStr ''bun biome lint .''),
         (''lint:fix'', JStr ''bun biome lint --apply .''),
         (''format'', JStr ''bun biome format .''),
         (''format:fix'', JStr ''bun biome format --write .'')])])) =
     modify_package (Loaded (JObj [(''scripts'', JObj [(''lint:format'', JStr ''x'')])]))"
proof -
  let ?m = "[(''scripts'', JObj [(''lint:format'', JStr ''x'')])]"
  let ?out = "JObj [(''scripts'', JObj
        [(''build'', JStr ''bun build.ts''),
         (''lint'', JStr ''bun biome lint .''),
         (''lint:fix'', JStr ''bun biome lint --apply .''),
         (''format'', JStr ''bun biome format .''),
         (''format:fix'', JStr ''bun biome format --write .'')])]"
  have typed: "absent_or_object ''scripts'' ?m"
    by (simp add: absent_or_object_def)
  have first: "modify_package_transform (JObj ?m) = Inr ?out"
    by (simp add: modify_package_transform_def ensure_scripts_def
      drop_lint_format_def setitem_in_def delitem_in_def then_do_def dict_contains_def
      dict_delitem_def)
  from script_editor_idempotent [of ?m ?out] first
  have "modify_package_transform ?out = Inr ?out"
    and "modify_package (Loaded ?out) = modify_package (Loaded (JObj ?m))"
    by blast+
  with typed first show ?thesis by (simp only: simp_thms)
qed

text \<open>
  C6: the Dependency-Remover transform is idempotent on the manifest it dumps. For every
  JSON-object manifest, a second run on the manifest that the first run returned
  returns that manifest again and takes the branch that prints
  \<^verbatim>\<open>prettier not found in devDependencies or devDependencies section missing.\<close>, so
  standard output is the same both times; and a manifest whose \<^verbatim>\<open>devDependencies\<close> is
  missing or a JSON object does give a result.
\<close>

theorem dependency_remover_idempotent:
  "then_do (remove_prettier_transform (JObj kvs)) (\<lambda>(out, line). remove_prettier_transform out) =
   then_do (remove_prettier_transform (JObj kvs)) (\<lambda>(out, line).
     Inr (out, ''prettier not found in devDependencies or devDependencies section missing.''))
   \<and> (remove_prettier_transform (JObj kvs) = Inr (res, said) \<longrightarrow>
        remove_prettier_transform res =
          Inr (res, ''prettier not found in devDependencies or devDependencies section missing.'')
      \<and> stdout (remove_prettier (Loaded res)) = stdout (remove_prettier (Loaded (JObj kvs))))
   \<and> (absent_or_object ''devDependencies'' kvs \<longrightarrow>
        (\<exists>out line. remove_prettier_transform (JObj kvs) = Inr (out, line)))"
proof -
  have again: "remove_prettier_transform out =
      Inr (out, ''prettier not found in devDependencies or devDependencies section missing.'')"
    if run: "remove_prettier_transform (JObj kvs) = Inr (out, line)" for out line
  proof (cases "\<exists>deps. map_of kvs ''devDependencies'' = Some (JObj deps)
                  \<and> dict_contains ''prettier'' deps")
    case True
    then obtain deps where deps: "map_of kvs ''devDependencies'' = Some (JObj deps)"
      "dict_contains ''prettier'' deps" by blast
    let ?deps = "dict_delitem ''prettier'' deps"
    let ?kvs = "dict_setitem ''devDependencies'' (JObj ?deps) kvs"
    from run deps have out: "out = JObj ?kvs"
      by (simp add: remover_found)
    have "map_of ?kvs ''devDependencies'' = Some (JObj ?deps)"
      by (simp add: map_of_dict_setitem)
    moreover have "\<not> dict_contains ''prettier'' ?deps"
      by (simp add: dict_contains_iff map_of_dict_delitem)
    ultimately show ?thesis
      unfolding out by (rule remover_object_missing)
  next
    case False
    from remover_otherwise [OF False] run show ?thesis by auto
  qed
  show ?thesis
  proof (intro conjI impI)
    show "then_do (remove_prettier_transform (JObj kvs)) (\<lambda>(out, line). remove_prettier_transform out) =
      then_do (remove_prettier_transform (JObj kvs)) (\<lambda>(out, line).
        Inr (out, ''prettier not found in devDependencies or devDependencies section missing.''))"
    proof (cases "remove_prettier_transform (JObj kvs)")
      case (Inl e)
      then show ?thesis by (simp add: then_do_def)
    next
      case (Inr r)
      obtain out line where r: "r = (out, line)" by (cases r)
      from again [of out line] Inr r show ?thesis by (simp add: then_do_def)
    qed
  next
    assume run: "remove_prettier_transform (JObj kvs) = Inr (res, said)"
    from again [OF run] show "remove_prettier_transform res =
        Inr (res, ''prettier not found in devDependencies or devDependencies section missing.'')" .
    from again [OF run] run
    show "stdout (remove_prettier (Loaded res)) = stdout (remove_prettier (Loaded (JObj kvs)))"
      by (simp add: remove_prettier_def)
  next
    assume "absent_or_object ''devDependencies'' kvs"
    from remover_typed [OF this]
    show "\<exists>out line. remove_prettier_transform (JObj kvs) = Inr (out, line)" by blast
  qed
qed

text \<open>The theorem at \<^verbatim>\<open>{"devDependencies": {"prettier": "^3.0.0"}}\<close>.\<close>

theorem dependency_remover_idempotent_witness:
  "absent_or_object ''devDependencies'' [(''devDependencies'', JObj [(''prettier'', JStr ''^3.0.0'')])]
   \<and> remove_prettier_transform (JObj [(''devDependencies'', JObj [(''prettier'', JStr ''^3.0.0'')])]) =
     Inr (JObj [(''devDependencies'', JObj [])], ''Removed prettier from devDependencies.'')
   \<and> remove_prettier_transform (JObj [(''devDependencies'', JObj [])]) =
     Inr (JObj [(''devDependencies'', JObj [])],
          ''prettier not found in devDependencies or devDependencies section missing.'')
   \<and> stdout (remove_prettier (Loaded (JObj [(''devDependencies'', JObj [])]))) =
     stdout (remove_prettier (Loaded (JObj [(''devDependencies'', JObj [(''prettier'', JStr ''^3.0.0'')])])))"
proof -
  let ?m = "[(''devDependencies'', JObj [(''prettier'', JStr ''^3.0.0'')])]"
  let ?out = "JObj [(''devDependencies'', JObj [])]"
  have typed: "absent_or_object ''devDependencies'' ?m"
    by (simp add: absent_or_object_def)
  have first: "remove_prettier_transform (JObj ?m) =
      Inr (?out, ''Removed prettier from devDependencies.'')"
    by (simp add: remove_prettier_transform_def has_prettier_def delitem_in_def then_do_def
        dict_contains_def dict_delitem_def)
  from dependency_remover_idempotent [of ?m ?out "''Removed prettier from devDependencies.''"] first
  have "remove_prettier_transform ?out =
      Inr (?out, ''prettier not found in devDependencies or devDependencies section missing.'')"
    and "stdout (remove_prettier (Loaded ?out)) = stdout (remove_prettier (Loaded (JObj ?m)))"
    by blast+
  with typed first show ?thesis by (simp only: simp_thms)
qed

section \<open>The scenarios of the specification\<close>

text \<open>
  C7: on the input \<^verbatim>\<open>{"scripts": {"lint:format": "x", "test": "y"}}\<close> the Script-Editor
  dumps an object whose \<^verbatim>\<open>scripts\<close> is exactly \<^verbatim>\<open>test\<close>, \<^verbatim>\<open>build\<close>, \<^verbatim>\<open>lint\<close>,
  \<^verbatim>\<open>lint:fix\<close>, \<^verbatim>\<open>format\<close>, \<^verbatim>\<open>format:fix\<close> with the fixed commands, and no
  \<^verbatim>\<open>lint:format\<close>.
\<close>

theorem scenario_script_editor:
  "modify_package (Loaded (JObj [(''scripts'', JObj [(''lint:format'', JStr ''x''), (''test'', JStr ''y'')])])) =
     \<lparr>stdout = [Dump (JObj [(''scripts'', JObj
        [(''test'', JStr ''y''),
         (''build'', JStr ''bun build.ts''),
         (''lint'', JStr ''bun biome lint .''),
         (''lint:fix'', JStr ''bun biome lint --apply .''),
         (''format'', JStr ''bun biome format .''),
         (''format:fix'', JStr ''bun biome format --write .'')])]) 2],
      stderr = [], exit_code = 0\<rparr>"
  by (simp add: modify_package_def modify_package_transform_def ensure_scripts_def
      drop_lint_format_def setitem_in_def delitem_in_def then_do_def dict_contains_def
      dict_delitem_def)

text \<open>
  C8: on the input \<^verbatim>\<open>{}\<close> the Script-Editor dumps a manifest whose \<^verbatim>\<open>scripts\<close> holds the
  five fixed entries and nothing else, and the Dependency-Remover dumps \<^verbatim>\<open>{}\<close> and
  prints the line that says the section is missing.
\<close>

theorem scenario_missing_section:
  "modify_package (Loaded (JObj [])) =
     \<lparr>stdout = [Dump (JObj [(''scripts'', JObj
        [(''build'', JStr ''bun build.ts''),
         (''lint'', JStr ''bun biome lint .''),
         (''lint:fix'', JStr ''bun biome lint --apply .''),
         (''format'', JStr ''bun biome format .''),
         (''format:fix'', JStr ''bun biome format --write .'')])]) 2],
      stderr = [], exit_code = 0\<rparr>
   \<and> remove_prettier (Loaded (JObj [])) =
     \<lparr>stdout = [Dump (JObj []) 2],
      stderr = [Print ''prettier not found in devDependencies or devDependencies section missing.''],
      exit_code = 0\<rparr>"
  by (simp add: modify_package_def modify_package_transform_def ensure_scripts_def
      drop_lint_format_def setitem_in_def delitem_in_def then_do_def dict_contains_def
      dict_delitem_def remove_prettier_def remove_prettier_transform_def has_prettier_def)

section \<open>The scripts the Script-Editor does not name\<close>

text \<open>
  C9: for every JSON-object manifest whose \<^verbatim>\<open>scripts\<close> field is a JSON object, the
  Script-Editor runs to the end, and in the dumped \<^verbatim>\<open>scripts\<close> every entry whose key is
  none of \<^verbatim>\<open>build\<close>, \<^verbatim>\<open>lint\<close>, \<^verbatim>\<open>lint:fix\<close>, \<^verbatim>\<open>format\<close>, \<^verbatim>\<open>format:fix\<close>,
  \<^verbatim>\<open>lint:format\<close> is as in the input: the same entries in the same order, and the same
  value under every such key.
\<close>

theorem other_scripts_unchanged:
  assumes "map_of kvs ''scripts'' = Some (JObj sc)"
  shows "\<exists>kvs' sc'.
      modify_package (Loaded (JObj kvs)) =
        \<lparr>stdout = [Dump (JObj kvs') 2], stderr = [], exit_code = 0\<rparr>
    \<and> map_of kvs' ''scripts'' = Some (JObj sc')
    \<and> filter (\<lambda>p. fst p \<notin> edited_keys) sc' = filter (\<lambda>p. fst p \<notin> edited_keys) sc
    \<and> (\<forall>k. k \<notin> edited_keys \<longrightarrow> map_of sc' k = map_of sc k)"
proof -
  from assms have typed: "absent_or_object ''scripts'' kvs" and sc: "scripts_of kvs = sc"
    by (simp_all add: absent_or_object_def scripts_of_def)
  let ?sc = "edit_scripts sc"
  let ?kvs = "dict_setitem ''scripts'' (JObj ?sc) kvs"
  have "modify_package (Loaded (JObj kvs)) =
      \<lparr>stdout = [Dump (JObj ?kvs) 2], stderr = [], exit_code = 0\<rparr>"
    by (simp add: modify_package_def transform_object [OF typed] sc)
  moreover have "map_of ?kvs ''scripts'' = Some (JObj ?sc)"
    by (simp add: map_of_dict_setitem)
  moreover have "filter (\<lambda>p. fst p \<notin> edited_keys) ?sc = filter (\<lambda>p. fst p \<notin> edited_keys) sc"
    by (rule unedited_edit_scripts)
  moreover have "\<forall>k. k \<notin> edited_keys \<longrightarrow> map_of ?sc k = map_of sc k"
    by (simp add: map_of_edit_scripts edited_keys_def)
  ultimately show ?thesis by (intro exI [of _ ?kvs] exI [of _ ?sc] conjI)
qed

text \<open>The theorem at \<^verbatim>\<open>{"scripts": {"test": "bun test", "lint": "eslint ."}}\<close>.\<close>

theorem other_scripts_unchanged_witness:
  "map_of [(''scripts'', JObj [(''test'', JStr ''bun test''), (''lint'', JStr ''eslint .'')])] ''scripts'' =
     Some (JObj [(''test'', JStr ''bun test''), (''lint'', JStr ''eslint .'')])
   \<and> (\<exists>kvs' sc'.
      modify_package (Loaded (JObj
        [(''scripts'', JObj [(''test'', JStr ''bun test''), (''lint'', JStr ''eslint .'')])])) =
        \<lparr>stdout = [Dump (JObj kvs') 2], stderr = [], exit_code = 0\<rparr>
    \<and> map_of kvs' ''scripts'' = Some (JObj sc')
    \<and> filter (\<lambda>p. fst p \<notin> edited_keys) sc' = [(''test'', JStr ''bun test'')]
    \<and> map_of sc' ''test'' = Some (JStr ''bun test''))"
proof -
  let ?sc = "[(''test'', JStr ''bun test''), (''lint'', JStr ''eslint .'')]"
  have bound: "map_of [(''scripts'', JObj ?sc)] ''scripts'' = Some (JObj ?sc)"
    by simp
  have kept: "filter (\<lambda>p. fst p \<notin> edited_keys) ?sc = [(''test'', JStr ''bun test'')]"
    "''test'' \<notin> edited_keys" "map_of ?sc ''test'' = Some (JStr ''bun test'')"
    by (simp_all add: edited_keys_def)
  from other_scripts_unchanged [OF bound] obtain kvs' sc' where
    "modify_package (Loaded (JObj [(''scripts'', JObj ?sc)])) =
        \<lparr>stdout = [Dump (JObj kvs') 2], stderr = [], exit_code = 0\<rparr>"
    "map_of kvs' ''scripts'' = Some (JObj sc')"
    "filter (\<lambda>p. fst p \<notin> edited_keys) sc' = filter (\<lambda>p. fst p \<notin> edited_keys) ?sc"
    "\<forall>k. k \<notin> edited_keys \<longrightarrow> map_of sc' k = map_of ?sc k"
    by blast
  with kept bound show ?thesis by (intro conjI exI [of _ kvs'] exI [of _ sc']) auto
qed

section \<open>A \<^verbatim>\<open>devDependencies\<close> that is not an object\<close>

text \<open>
  C10: when \<^verbatim>\<open>devDependencies\<close> is bound to a value that is not a JSON object and the
  membership test \<^verbatim>\<open>'prettier' in data['devDependencies']\<close> succeeds (an array with
  the element \<^verbatim>\<open>"prettier"\<close>, a string containing \<^verbatim>\<open>prettier\<close>), the deletion of line 11
  raises \<^verbatim>\<open>TypeError\<close>, nothing catches it, nothing is written to standard output and
  the exit code is 1, although the input was parsed.
\<close>

theorem deletion_type_error:
  assumes "map_of kvs ''devDependencies'' = Some v"
    and "\<not> is_object v"
    and "py_contains ''prettier'' v = Inr True"
  shows "py_delitem ''prettier'' v = Inl TypeError
    \<and> remove_prettier (Loaded (JObj kvs)) =
        \<lparr>stdout = [], stderr = [Traceback TypeError], exit_code = 1\<rparr>"
proof -
  from assms(2) have del: "py_delitem ''prettier'' v = Inl TypeError"
    by (cases v) simp_all
  from assms have "remove_prettier_transform (JObj kvs) = Inl TypeError"
    by (simp add: remover_not_object)
  with del show ?thesis by (simp add: remove_prettier_def uncaught_def)
qed

text \<open>The theorem at \<^verbatim>\<open>{"devDependencies": ["prettier"]}\<close>.\<close>

theorem deletion_type_error_witness:
  "map_of [(''devDependencies'', JArr [JStr ''prettier''])] ''devDependencies'' =
     Some (JArr [JStr ''prettier''])
   \<and> \<not> is_object (JArr [JStr ''prettier''])
   \<and> py_contains ''prettier'' (JArr [JStr ''prettier'']) = Inr True
   \<and> py_delitem ''prettier'' (JArr [JStr ''prettier'']) = Inl TypeError
   \<and> remove_prettier (Loaded (JObj [(''devDependencies'', JArr [JStr ''prettier''])])) =
        \<lparr>stdout = [], stderr = [Traceback TypeError], exit_code = 1\<rparr>"
proof -
  have a: "map_of [(''devDependencies'', JArr [JStr ''prettier''])] ''devDependencies'' =
     Some (JArr [JStr ''prettier''])"
    and b: "\<not> is_object (JArr [JStr ''prettier''])"
    and c: "py_contains ''prettier'' (JArr [JStr ''prettier'']) = Inr True"
    by simp_all
  from deletion_type_error [OF a b c] a b c show ?thesis by (intro conjI) simp_all
qed

end
